theory Spec2Isabelle
  imports Complex_Main
begin

section \<open>Python values and errors\<close>

text \<open>
  The scalars this module handles (hyperparameters, a persisted epoch, a learning rate)
  are Python ints and floats. A float is idealised as a real number: the module passes
  these values on, tests their truth value and compares two of them, and does no
  arithmetic on them. NaN, whose comparison is not reflexive, is outside this type.
\<close>

datatype pynum = PInt int | PFloat real

fun num_value :: "pynum \<Rightarrow> real" where
  "num_value (PInt i) = of_int i"
| "num_value (PFloat r) = r"

text \<open>Python's \<^verbatim>\<open>a != b\<close> on numbers compares by numeric value (\<^verbatim>\<open>1 == 1.0\<close>).\<close>

definition py_ne :: "pynum \<Rightarrow> pynum \<Rightarrow> bool" where
  "py_ne a b = (num_value a \<noteq> num_value b)"

text \<open>
  A value that may be Python's \<^verbatim>\<open>None\<close> is a \<^typ>\<open>pynum option\<close>.
  \<^verbatim>\<open>None\<close>, \<^verbatim>\<open>0\<close> and \<^verbatim>\<open>0.0\<close> are falsy; every other number is truthy.
\<close>

fun truthy :: "pynum option \<Rightarrow> bool" where
  "truthy None = False"
| "truthy (Some (PInt i)) = (i \<noteq> 0)"
| "truthy (Some (PFloat r)) = (r \<noteq> 0)"

text \<open>\<^verbatim>\<open>a or b\<close>: the left operand when it is truthy, the right operand otherwise.\<close>

fun py_or :: "pynum option \<Rightarrow> pynum \<Rightarrow> pynum" where
  "py_or None b = b"
| "py_or (Some v) b = (if truthy (Some v) then v else b)"

text \<open>
  The exceptions that can leave a function of this module. \<open>ValueError\<close> is the one
  the module raises itself; \<open>UnboundLocalError\<close>, \<open>NameError\<close> and \<open>KeyError\<close>
  are what Python raises at a statement of this module that reads an unassigned local,
  an unassigned closure variable or a missing dictionary key; \<open>External\<close> carries any
  exception raised inside a collaborator (option fetching, the numerical library),
  whatever its Python class.
\<close>

datatype 'e pyerr =
    ValueError string
  | UnboundLocalError string
  | NameError string
  | KeyError string
  | External 'e

section \<open>Configuration\<close>

text \<open>
  The options object returned by \<^verbatim>\<open>fetch_opts\<close>; the field \<^verbatim>\<open>opts.x\<close> is \<open>opt_x\<close>.
  \<^verbatim>\<open>fetch_opts\<close> itself lives in \<^verbatim>\<open>dlt/config/opts.py\<close> and is a parameter of every
  function below: it takes the categories and the subset and returns the options or
  raises.
\<close>

record opts =
  opt_optimizer :: string
  opt_lr :: pynum
  opt_momentum :: pynum
  opt_dampening :: pynum
  opt_beta1 :: pynum
  opt_beta2 :: pynum
  opt_weight_decay :: pynum
  opt_rho :: pynum
  opt_optim_eps :: pynum
  opt_lr_decay :: pynum
  opt_alpha :: pynum
  opt_centered :: bool
  opt_lr_schedule :: string
  opt_lr_step_size :: pynum
  opt_lr_patience :: pynum
  opt_lr_cooldown :: pynum
  opt_lr_ratio :: pynum
  opt_lr_min :: pynum
  opt_experiment_name :: string
  opt_save_path :: string

text \<open>
  The \<^verbatim>\<open>subset\<close> argument: \<^verbatim>\<open>None\<close> (the default), a string, or a dictionary from
  category names to subset names. (As a variable it is written \<open>subs\<close>.)
\<close>

datatype subset = SubsetNone | SubsetStr string | SubsetDict "string \<Rightarrow> string option"

text \<open>
  Modelled from the spec: \<^verbatim>\<open>parse.optimizers\<close>, the recognized optimizer set, is defined
  in \<^verbatim>\<open>dlt/config/opts.py\<close>, which is not among the sources; its members are the seven
  recognized names. The function \<open>optimizer\<close> below takes the list as a parameter.
\<close>

definition parse_optimizers :: "string list" where
  "parse_optimizers =
     [''adam'', ''sgd'', ''adadelta'', ''adagrad'', ''sparseadam'', ''adamax'', ''rmsprop'']"

section \<open>The optimizer factory\<close>

record 'p parameter =
  requires_grad :: bool
  tensor :: 'p

record 'p module =
  parameters :: "'p parameter list"

text \<open>
  A call of one of the library's optimizer constructors: the parameter list given
  positionally, then the keyword arguments in the order of the source.
  \<^item> \<open>Adam params lr betas weight_decay\<close>
  \<^item> \<open>SGD params lr momentum dampening weight_decay\<close>
  \<^item> \<open>Adadelta params lr rho eps weight_decay\<close>
  \<^item> \<open>Adagrad params lr lr_decay weight_decay\<close>
  \<^item> \<open>SparseAdam params lr betas eps\<close>
  \<^item> \<open>Adamax params lr betas eps weight_decay\<close>
  \<^item> \<open>RMSprop params lr alpha eps weight_decay momentum centered\<close>
\<close>

datatype 'p optim_call =
    Adam "'p parameter list" pynum "pynum \<times> pynum" pynum
  | SGD "'p parameter list" pynum pynum pynum pynum
  | Adadelta "'p parameter list" pynum pynum pynum pynum
  | Adagrad "'p parameter list" pynum pynum pynum
  | SparseAdam "'p parameter list" pynum "pynum \<times> pynum" pynum
  | Adamax "'p parameter list" pynum "pynum \<times> pynum" pynum pynum
  | RMSprop "'p parameter list" pynum pynum pynum pynum pynum bool

fun call_params :: "'p optim_call \<Rightarrow> 'p parameter list" where
  "call_params (Adam ps _ _ _) = ps"
| "call_params (SGD ps _ _ _ _) = ps"
| "call_params (Adadelta ps _ _ _ _) = ps"
| "call_params (Adagrad ps _ _ _) = ps"
| "call_params (SparseAdam ps _ _ _) = ps"
| "call_params (Adamax ps _ _ _ _) = ps"
| "call_params (RMSprop ps _ _ _ _ _ _) = ps"

text \<open>
  The \<^verbatim>\<open>if/elif\<close> chain of \<^verbatim>\<open>optimizer\<close>: the constructor call of the branch taken, or
  \<open>None\<close> when no branch assigns \<^verbatim>\<open>ret_optimizer\<close>.
\<close>

definition optimizer_branch :: "opts \<Rightarrow> 'p parameter list \<Rightarrow> 'p optim_call option" where
  "optimizer_branch opts grad_params =
     (if opt_optimizer opts = ''adam'' then
        Some (Adam grad_params (opt_lr opts) (opt_beta1 opts, opt_beta2 opts)
                (opt_weight_decay opts))
      else if opt_optimizer opts = ''sgd'' then
        Some (SGD grad_params (opt_lr opts) (opt_momentum opts) (opt_dampening opts)
                (opt_weight_decay opts))
      else if opt_optimizer opts = ''adadelta'' then
        Some (Adadelta grad_params (opt_lr opts) (opt_rho opts) (opt_optim_eps opts)
                (opt_weight_decay opts))
      else if opt_optimizer opts = ''adagrad'' then
        Some (Adagrad grad_params (opt_lr opts) (opt_lr_decay opts) (opt_weight_decay opts))
      else if opt_optimizer opts = ''sparseadam'' then
        Some (SparseAdam grad_params (opt_lr opts) (opt_beta1 opts, opt_beta2 opts)
                (opt_optim_eps opts))
      else if opt_optimizer opts = ''adamax'' then
        Some (Adamax grad_params (opt_lr opts) (opt_beta1 opts, opt_beta2 opts)
                (opt_optim_eps opts) (opt_weight_decay opts))
      else if opt_optimizer opts = ''rmsprop'' then
        Some (RMSprop grad_params (opt_lr opts) (opt_alpha opts) (opt_optim_eps opts)
                (opt_weight_decay opts) (opt_momentum opts) (opt_centered opts))
      else None)"

text \<open>
  What a call into a collaborator gives back to this module: its value, or its
  exception, which propagates unchanged.
\<close>

definition propagate :: "('e + 'a) \<times> 's \<Rightarrow> ('e pyerr + 'a) \<times> 's" where
  "propagate r = (case r of (Inl e, s) \<Rightarrow> (Inl (External e), s) | (Inr v, s) \<Rightarrow> (Inr v, s))"

text \<open>
  \<^verbatim>\<open>optimizer(model, subset)\<close>. The state \<open>s\<close> is everything mutable the library can
  reach (the model's tensors among it); the constructor \<open>torch_optim\<close> is the only
  thing that may change it. The result is the returned optimizer object or the
  exception raised, with the state left behind.
\<close>

definition optimizer ::
  "(string list \<Rightarrow> subset \<Rightarrow> 'e + opts) \<Rightarrow> string list \<Rightarrow>
   ('p optim_call \<Rightarrow> 's \<Rightarrow> ('e + 'o) \<times> 's) \<Rightarrow>
   'p module \<Rightarrow> subset \<Rightarrow> 's \<Rightarrow> ('e pyerr + 'o) \<times> 's" where
  "optimizer fetch_opts parse_optimizers_list torch_optim model subs s =
     (case fetch_opts [''optimizer''] subs of
        Inl e \<Rightarrow> (Inl (External e), s)
      | Inr opts \<Rightarrow>
          if opt_optimizer opts \<notin> set parse_optimizers_list then
            (Inl (ValueError (''Optimizer '' @ opt_optimizer opts @ '' not available.'')), s)
          else
            let grad_params = filter requires_grad (parameters model) in
            (case optimizer_branch opts grad_params of
               None \<Rightarrow> (Inl (UnboundLocalError ''ret_optimizer''), s)
             | Some call \<Rightarrow> propagate (torch_optim call s)))"

section \<open>The optimizer object, the checkpoint files and the console\<close>

text \<open>
  A parameter group of a library optimizer: its \<^verbatim>\<open>'lr'\<close> entry and all its other
  entries. A library optimizer refuses an empty parameter list and fills \<^verbatim>\<open>'lr'\<close> into
  every group, so \<^verbatim>\<open>optimizer.param_groups[0]['lr']\<close> is always there: the first group
  is a field of its own.
\<close>

record 'g param_group =
  lr :: pynum
  other_entries :: 'g

record ('g, 's) world =
  group0 :: "'g param_group"
  groups_rest :: "'g param_group list"
  lib_state :: 's
  files :: "string \<times> string \<Rightarrow> pynum option"
  stdout :: "string list"

definition py_print :: "string \<Rightarrow> ('g, 's) world \<Rightarrow> ('g, 's) world" where
  "py_print line w = w\<lparr>stdout := stdout w @ [line]\<rparr>"

text \<open>Two states that differ at most in what has been printed.\<close>

definition same_but_stdout :: "('g, 's) world \<Rightarrow> ('g, 's) world \<Rightarrow> bool" where
  "same_but_stdout w w' =
     (group0 w' = group0 w \<and> groups_rest w' = groups_rest w \<and> lib_state w' = lib_state w \<and>
      files w' = files w)"

text \<open>
  The two lines that name the optimizer in a message:
  \<^verbatim>\<open>name = subset['optimizer'] if isinstance(subset, dict) else subset\<close> and
  \<^verbatim>\<open>name = ' ({0})'.format(name) if name else ''\<close>.
  The result is \<open>None\<close> when the dictionary lookup raises \<^verbatim>\<open>KeyError\<close>, which the
  callers below turn into the exception.
\<close>

definition optimizer_label :: "subset \<Rightarrow> string option" where
  "optimizer_label subs =
     (case subs of
        SubsetNone \<Rightarrow> Some []
      | SubsetStr name \<Rightarrow> Some (if name \<noteq> [] then '' ('' @ name @ '')'' else [])
      | SubsetDict d \<Rightarrow>
          (case d ''optimizer'' of
             None \<Rightarrow> None
           | Some name \<Rightarrow> Some (if name \<noteq> [] then '' ('' @ name @ '')'' else [])))"

section \<open>The scheduler factory\<close>

text \<open>
  A call of one of the library's schedule constructors on the optimizer:
  \<^item> \<open>ReduceLROnPlateau mode factor threshold patience verbose threshold_mode cooldown
    min_lr eps\<close>
  \<^item> \<open>StepLR step_size gamma\<close>
\<close>

datatype sched_call =
    ReduceLROnPlateau string pynum pynum pynum bool string pynum pynum pynum
  | StepLR pynum pynum

text \<open>
  \<^verbatim>\<open>schedule_step(metric)\<close>, the closure \<^verbatim>\<open>scheduler\<close> returns. \<open>schedule_fn\<close> is the
  closure variable of that name: \<open>None\<close> when no branch of \<^verbatim>\<open>scheduler\<close> defined it.
  An inner schedule action returns the exception it raised, if any, and the state it
  left. \<open>fmt_2e\<close> is Python's \<^verbatim>\<open>.2e\<close> number format.
\<close>

definition schedule_step ::
  "(pynum \<Rightarrow> string) \<Rightarrow> subset \<Rightarrow>
   ('m \<Rightarrow> ('g, 's) world \<Rightarrow> 'e option \<times> ('g, 's) world) option \<Rightarrow>
   'm \<Rightarrow> ('g, 's) world \<Rightarrow> ('e pyerr + unit) \<times> ('g, 's) world" where
  "schedule_step fmt_2e subs schedule_fn metric w =
     (let current_lr = lr (group0 w) in
      case schedule_fn of
        None \<Rightarrow> (Inl (NameError ''schedule_fn''), w)
      | Some fn \<Rightarrow>
          (case fn metric w of
             (Some e, w1) \<Rightarrow> (Inl (External e), w1)
           | (None, w1) \<Rightarrow>
               let new_lr = lr (group0 w1) in
               if py_ne new_lr current_lr then
                 (case optimizer_label subs of
                    None \<Rightarrow> (Inl (KeyError ''optimizer''), w1)
                  | Some name \<Rightarrow>
                      (Inr (),
                       py_print (''Learning rate'' @ name @ '' changed from '' @
                                 fmt_2e current_lr @ '' to '' @ fmt_2e new_lr) w1))
               else (Inr (), w1)))"

text \<open>
  \<^verbatim>\<open>scheduler(optimizer, subset)\<close>. The optimizer is the one of the state.
  \<open>new_scheduler\<close> is the library's constructor, \<open>step\<close> its \<^verbatim>\<open>step\<close> method, called with
  the metric (\<open>Some metric\<close>) or with no argument (\<open>None\<close>).
\<close>

definition scheduler ::
  "(string list \<Rightarrow> subset \<Rightarrow> 'e + opts) \<Rightarrow>
   (sched_call \<Rightarrow> ('g, 's) world \<Rightarrow> ('e + 'sch) \<times> ('g, 's) world) \<Rightarrow>
   ('sch \<Rightarrow> 'm option \<Rightarrow> ('g, 's) world \<Rightarrow> 'e option \<times> ('g, 's) world) \<Rightarrow>
   (pynum \<Rightarrow> string) \<Rightarrow> subset \<Rightarrow> ('g, 's) world \<Rightarrow>
   ('e pyerr + ('m \<Rightarrow> ('g, 's) world \<Rightarrow> ('e pyerr + unit) \<times> ('g, 's) world)) \<times> ('g, 's) world"
  where
  "scheduler fetch_opts new_scheduler step fmt_2e subs w =
     (case fetch_opts [''scheduler''] subs of
        Inl e \<Rightarrow> (Inl (External e), w)
      | Inr opts \<Rightarrow>
          if opt_lr_schedule opts = ''plateau'' then
            (case new_scheduler
                    (ReduceLROnPlateau ''min'' (opt_lr_ratio opts) (PFloat (1 / 10000))
                       (opt_lr_patience opts) True ''rel'' (opt_lr_cooldown opts)
                       (opt_lr_min opts) (PFloat (1 / 100000000))) w of
               (Inl e, w1) \<Rightarrow> (Inl (External e), w1)
             | (Inr ret_scheduler, w1) \<Rightarrow>
                 (Inr (schedule_step fmt_2e subs
                         (Some (\<lambda>metric. step ret_scheduler (Some metric)))), w1))
          else if opt_lr_schedule opts = ''step'' then
            (case new_scheduler (StepLR (opt_lr_step_size opts) (opt_lr_ratio opts)) w of
               (Inl e, w1) \<Rightarrow> (Inl (External e), w1)
             | (Inr ret_scheduler, w1) \<Rightarrow>
                 (Inr (schedule_step fmt_2e subs
                         (Some (\<lambda>metric. step ret_scheduler None))), w1))
          else if opt_lr_schedule opts = ''none'' then
            (Inr (schedule_step fmt_2e subs (Some (\<lambda>metric w'. (None, w')))), w)
          else
            (Inr (schedule_step fmt_2e subs None), w))"

section \<open>The checkpoint-backed restorers\<close>

text \<open>
  The arguments of a \<^verbatim>\<open>Checkpointer\<close> construction: the name, then the keyword arguments
  \<^verbatim>\<open>directory\<close>, \<^verbatim>\<open>overwrite\<close>, \<^verbatim>\<open>timestamp\<close> and \<^verbatim>\<open>add_count\<close>.
\<close>

record checkpointer =
  chkp_name :: string
  chkp_directory :: string
  chkp_overwrite :: bool
  chkp_timestamp :: bool
  chkp_add_count :: bool

text \<open>
  Modelled from the spec: \<^verbatim>\<open>Checkpointer.load\<close> belongs to \<^verbatim>\<open>dlt/util\<close>, which is not among
  the sources. It reads the on-disk scalar kept under the checkpointer's name in its
  directory: the persisted value when a checkpoint exists, \<^verbatim>\<open>None\<close> when none has been
  persisted.
\<close>

definition load :: "checkpointer \<Rightarrow> ('g, 's) world \<Rightarrow> pynum option" where
  "load chkp w = files w (chkp_directory chkp, chkp_name chkp)"

text \<open>\<^verbatim>\<open>epoch_checkpointer(subset)\<close>.\<close>

definition epoch_checkpointer ::
  "(string list \<Rightarrow> subset \<Rightarrow> 'e + opts) \<Rightarrow> subset \<Rightarrow> ('g, 's) world \<Rightarrow>
   ('e pyerr + checkpointer \<times> pynum) \<times> ('g, 's) world" where
  "epoch_checkpointer fetch_opts subs w =
     (case fetch_opts [''general''] subs of
        Inl e \<Rightarrow> (Inl (External e), w)
      | Inr opts \<Rightarrow>
          let epoch_chkp = \<lparr>chkp_name = ''epoch_'' @ opt_experiment_name opts,
                            chkp_directory = opt_save_path opts, chkp_overwrite = True,
                            chkp_timestamp = False, chkp_add_count = False\<rparr>;
              current_epoch = py_or (load epoch_chkp w) (PInt 1)
          in (Inr (epoch_chkp, current_epoch), w))"

text \<open>
  \<^verbatim>\<open>lr_checkpointer(optimizer, subset)\<close>. The learning rate is written before the
  message is built, so it stays written when building the message raises.
\<close>

definition lr_checkpointer ::
  "(string list \<Rightarrow> subset \<Rightarrow> 'e + opts) \<Rightarrow> (pynum \<Rightarrow> string) \<Rightarrow> subset \<Rightarrow>
   ('g, 's) world \<Rightarrow> ('e pyerr + checkpointer) \<times> ('g, 's) world" where
  "lr_checkpointer fetch_opts fmt_2e subs w =
     (case fetch_opts [''general'', ''optimizer''] subs of
        Inl e \<Rightarrow> (Inl (External e), w)
      | Inr opts \<Rightarrow>
          let lr_chkp = \<lparr>chkp_name = ''lr_'' @ opt_experiment_name opts,
                         chkp_directory = opt_save_path opts, chkp_overwrite = True,
                         chkp_timestamp = False, chkp_add_count = False\<rparr>;
              lr_value = py_or (load lr_chkp w) (opt_lr opts);
              w1 = w\<lparr>group0 := (group0 w)\<lparr>lr := lr_value\<rparr>\<rparr>
          in (case optimizer_label subs of
                None \<Rightarrow> (Inl (KeyError ''optimizer''), w1)
              | Some name \<Rightarrow>
                  (Inr lr_chkp,
                   py_print (''Learning rate'' @ name @ '' initialized to '' @
                             fmt_2e lr_value @ ''.'') w1)))"

section \<open>Errors of the module's own\<close>

text \<open>
  A result is an error of the module's own when it is an exception that is not one a
  collaborator raised.
\<close>

definition own_error :: "'e pyerr + 'a \<Rightarrow> bool" where
  "own_error r = (case r of Inl (External e) \<Rightarrow> False | Inl other \<Rightarrow> True | Inr v \<Rightarrow> False)"

text \<open>
  A result is a \<^verbatim>\<open>ValueError\<close> leaving a function when it is the module's own or an
  exception of a collaborator that is a \<^verbatim>\<open>ValueError\<close>; \<open>is_value_error\<close> tells which
  exceptions of the collaborator are.
\<close>

definition raises_value_error :: "('e \<Rightarrow> bool) \<Rightarrow> 'e pyerr + 'a \<Rightarrow> bool" where
  "raises_value_error is_value_error r =
     (case r of
        Inl (ValueError msg) \<Rightarrow> True
      | Inl (External e) \<Rightarrow> is_value_error e
      | Inl other \<Rightarrow> False
      | Inr v \<Rightarrow> False)"

section \<open>Sample inputs\<close>

text \<open>Concrete inputs at which the theorems below are instantiated.\<close>

definition sample_opts :: opts where
  "sample_opts =
     \<lparr>opt_optimizer = ''adam'', opt_lr = PFloat (1 / 1000), opt_momentum = PFloat (9 / 10),
      opt_dampening = PFloat 0, opt_beta1 = PFloat (9 / 10), opt_beta2 = PFloat (99 / 100),
      opt_weight_decay = PFloat 0, opt_rho = PFloat (9 / 10),
      opt_optim_eps = PFloat (1 / 100000000), opt_lr_decay = PFloat 0,
      opt_alpha = PFloat (99 / 100), opt_centered = False, opt_lr_schedule = ''step'',
      opt_lr_step_size = PInt 100, opt_lr_patience = PInt 10, opt_lr_cooldown = PInt 0,
      opt_lr_ratio = PFloat (1 / 2), opt_lr_min = PFloat 0, opt_experiment_name = ''exp'',
      opt_save_path = ''runs''\<rparr>"

text \<open>An option fetcher that accepts every request and returns the given options.\<close>

definition fetch_const :: "opts \<Rightarrow> string list \<Rightarrow> subset \<Rightarrow> unit + opts" where
  "fetch_const given categories subs = Inr given"

definition sample_model :: "nat module" where
  "sample_model =
     \<lparr>parameters = [\<lparr>requires_grad = True, tensor = 0\<rparr>, \<lparr>requires_grad = False, tensor = 1\<rparr>,
                     \<lparr>requires_grad = True, tensor = 2\<rparr>]\<rparr>"

text \<open>
  A stand-in for the library's optimizer constructors: the object it returns is the
  call it received, and it counts the constructions in the state.
\<close>

definition recording_optim :: "'p optim_call \<Rightarrow> nat \<Rightarrow> (unit + 'p optim_call) \<times> nat" where
  "recording_optim call s = (Inr call, Suc s)"

definition sample_world :: "(unit, nat) world" where
  "sample_world =
     \<lparr>group0 = \<lparr>lr = PFloat (1 / 10), other_entries = ()\<rparr>, groups_rest = [],
      lib_state = 0, files = (\<lambda>key. None), stdout = []\<rparr>"

text \<open>
  A stand-in for the library's optimizer constructors that keeps the Python class of what
  it raises: as the library does, it refuses an empty parameter list with a
  \<^verbatim>\<open>ValueError\<close>. With it, an option fetcher for its exception type and a model whose
  parameters are all frozen.
\<close>

datatype torch_error = TorchValueError string | TorchOtherError string

fun is_torch_value_error :: "torch_error \<Rightarrow> bool" where
  "is_torch_value_error (TorchValueError msg) = True"
| "is_torch_value_error (TorchOtherError msg) = False"

definition fetch_const_torch :: "opts \<Rightarrow> string list \<Rightarrow> subset \<Rightarrow> torch_error + opts" where
  "fetch_const_torch given categories subs = Inr given"

definition strict_optim ::
  "'p optim_call \<Rightarrow> nat \<Rightarrow> (torch_error + 'p optim_call) \<times> nat" where
  "strict_optim call s =
     (if call_params call = [] then
        (Inl (TorchValueError ''optimizer got an empty parameter list''), s)
      else (Inr call, Suc s))"

definition frozen_model :: "nat module" where
  "frozen_model =
     \<lparr>parameters = [\<lparr>requires_grad = False, tensor = 0\<rparr>, \<lparr>requires_grad = False, tensor = 1\<rparr>]\<rparr>"

text \<open>The state in which the value \<open>v\<close> has been persisted under a name in a directory.\<close>

definition with_checkpoint ::
  "string \<Rightarrow> string \<Rightarrow> pynum \<Rightarrow> ('g, 's) world \<Rightarrow> ('g, 's) world" where
  "with_checkpoint dir name v w = w\<lparr>files := (files w)((dir, name) \<mapsto> v)\<rparr>"

text \<open>
  Stand-ins for the library's schedules: the schedule object is its constructor call,
  and a step halves the learning rate of the first group and counts itself.
\<close>

definition recording_scheduler ::
  "sched_call \<Rightarrow> ('g, 's) world \<Rightarrow> (unit + sched_call) \<times> ('g, 's) world" where
  "recording_scheduler call w = (Inr call, w)"

definition halving_step ::
  "sched_call \<Rightarrow> nat option \<Rightarrow> ('g, nat) world \<Rightarrow> unit option \<times> ('g, nat) world" where
  "halving_step sch metric w =
     (None, w\<lparr>group0 := (group0 w)\<lparr>lr := PFloat (num_value (lr (group0 w)) / 2)\<rparr>,
              lib_state := Suc (lib_state w)\<rparr>)"

definition sample_fmt :: "pynum \<Rightarrow> string" where
  "sample_fmt x = ''#''"

text \<open>
  The use a training loop makes of \<open>scheduler\<close>: build the closure, then call it once
  with a metric.
\<close>

definition scheduler_then_step ::
  "(string list \<Rightarrow> subset \<Rightarrow> 'e + opts) \<Rightarrow>
   (sched_call \<Rightarrow> ('g, 's) world \<Rightarrow> ('e + 'sch) \<times> ('g, 's) world) \<Rightarrow>
   ('sch \<Rightarrow> 'm option \<Rightarrow> ('g, 's) world \<Rightarrow> 'e option \<times> ('g, 's) world) \<Rightarrow>
   (pynum \<Rightarrow> string) \<Rightarrow> subset \<Rightarrow> 'm \<Rightarrow> ('g, 's) world \<Rightarrow>
   ('e pyerr + unit) \<times> ('g, 's) world" where
  "scheduler_then_step fetch_opts new_scheduler step fmt_2e subs metric w =
     (case scheduler fetch_opts new_scheduler step fmt_2e subs w of
        (Inl err, w1) \<Rightarrow> (Inl err, w1)
      | (Inr closure, w1) \<Rightarrow> closure metric w1)"

section \<open>The optimizer factory: dispatch, validation, parameters\<close>

lemma propagate_not_own_error:
  "fst (propagate r) \<noteq> Inl (ValueError msg)"
  "fst (propagate r) \<noteq> Inl (UnboundLocalError msg)"
  by (auto simp: propagate_def split: prod.splits sum.splits)

lemma raises_value_error_simps [simp]:
  "raises_value_error is_ve (Inl (ValueError msg)) = True"
  "raises_value_error is_ve (Inl (External e)) = is_ve e"
  "raises_value_error is_ve (Inl (UnboundLocalError msg)) = False"
  "raises_value_error is_ve (Inl (NameError msg)) = False"
  "raises_value_error is_ve (Inl (KeyError msg)) = False"
  "raises_value_error is_ve (Inr v) = False"
  by (simp_all add: raises_value_error_def)

lemma raises_value_error_propagate:
  "raises_value_error is_ve (fst (propagate r)) = (\<exists>e s'. r = (Inl e, s') \<and> is_ve e)"
  by (cases r; cases "fst r") (auto simp: propagate_def)

text \<open>
  Claim C1. Let the options be fetched and the configured optimizer name be recognized.
  For each of the seven names \<^verbatim>\<open>adam\<close>, \<^verbatim>\<open>sgd\<close>, \<^verbatim>\<open>adadelta\<close>, \<^verbatim>\<open>adagrad\<close>, \<^verbatim>\<open>sparseadam\<close>,
  \<^verbatim>\<open>adamax\<close>, \<^verbatim>\<open>rmsprop\<close>, \<open>optimizer\<close> makes exactly one library call, the constructor of
  that name, on the model's gradient-requiring parameters with the configuration fields
  passed through unchanged as its keyword arguments (Adam: \<open>lr\<close>, \<open>betas = (beta1, beta2)\<close>,
  \<open>weight_decay\<close>; SGD: \<open>lr\<close>, \<open>momentum\<close>, \<open>dampening\<close>, \<open>weight_decay\<close>; and so on), and
  its result is the constructor's: the object the constructor returned is returned, an
  exception of the constructor propagates.
\<close>

theorem optimizer_constructs_named:
  assumes "fetch_opts [''optimizer''] subs = Inr opts"
      and "opt_optimizer opts \<in> set recognized"
  shows
    "(opt_optimizer opts = ''adam'' \<longrightarrow>
        optimizer fetch_opts recognized torch_optim model subs s =
          propagate (torch_optim (Adam (filter requires_grad (parameters model)) (opt_lr opts)
            (opt_beta1 opts, opt_beta2 opts) (opt_weight_decay opts)) s)) \<and>
     (opt_optimizer opts = ''sgd'' \<longrightarrow>
        optimizer fetch_opts recognized torch_optim model subs s =
          propagate (torch_optim (SGD (filter requires_grad (parameters model)) (opt_lr opts)
            (opt_momentum opts) (opt_dampening opts) (opt_weight_decay opts)) s)) \<and>
     (opt_optimizer opts = ''adadelta'' \<longrightarrow>
        optimizer fetch_opts recognized torch_optim model subs s =
          propagate (torch_optim (Adadelta (filter requires_grad (parameters model)) (opt_lr opts)
            (opt_rho opts) (opt_optim_eps opts) (opt_weight_decay opts)) s)) \<and>
     (opt_optimizer opts = ''adagrad'' \<longrightarrow>
        optimizer fetch_opts recognized torch_optim model subs s =
          propagate (torch_optim (Adagrad (filter requires_grad (parameters model)) (opt_lr opts)
            (opt_lr_decay opts) (opt_weight_decay opts)) s)) \<and>
     (opt_optimizer opts = ''sparseadam'' \<longrightarrow>
        optimizer fetch_opts recognized torch_optim model subs s =
          propagate (torch_optim (SparseAdam (filter requires_grad (parameters model)) (opt_lr opts)
            (opt_beta1 opts, opt_beta2 opts) (opt_optim_eps opts)) s)) \<and>
     (opt_optimizer opts = ''adamax'' \<longrightarrow>
        optimizer fetch_opts recognized torch_optim model subs s =
          propagate (torch_optim (Adamax (filter requires_grad (parameters model)) (opt_lr opts)
            (opt_beta1 opts, opt_beta2 opts) (opt_optim_eps opts) (opt_weight_decay opts)) s)) \<and>
     (opt_optimizer opts = ''rmsprop'' \<longrightarrow>
        optimizer fetch_opts recognized torch_optim model subs s =
          propagate (torch_optim (RMSprop (filter requires_grad (parameters model)) (opt_lr opts)
            (opt_alpha opts) (opt_optim_eps opts) (opt_weight_decay opts) (opt_momentum opts)
            (opt_centered opts)) s)) \<and>
     (\<forall>call obj s'. torch_optim call s = (Inr obj, s') \<longrightarrow>
        propagate (torch_optim call s) = (Inr obj, s'))"
proof -
  let ?gp = "filter requires_grad (parameters model)"
  have run: "optimizer fetch_opts recognized torch_optim model subs s =
               propagate (torch_optim call s)"
    if "optimizer_branch opts ?gp = Some call" for call
    using assms that by (simp add: optimizer_def)
  have ret: "\<forall>call obj s'. torch_optim call s = (Inr obj, s') \<longrightarrow>
               propagate (torch_optim call s) = (Inr obj, s')"
    by (simp add: propagate_def)
  show ?thesis
    by (intro conjI impI run ret) (simp_all add: optimizer_branch_def)
qed

theorem optimizer_constructs_named_witness:
  "optimizer (fetch_const sample_opts) parse_optimizers recording_optim sample_model SubsetNone 0 =
     (Inr (Adam [\<lparr>requires_grad = True, tensor = 0\<rparr>, \<lparr>requires_grad = True, tensor = 2\<rparr>]
             (PFloat (1 / 1000)) (PFloat (9 / 10), PFloat (99 / 100)) (PFloat 0)), 1)"
  using optimizer_constructs_named [of "fetch_const sample_opts" SubsetNone sample_opts
      parse_optimizers recording_optim sample_model 0]
  by (simp add: fetch_const_def sample_opts_def parse_optimizers_def recording_optim_def
      sample_model_def propagate_def)

text \<open>
  Claim C2, as amended. Once the options are fetched, \<open>optimizer\<close> raises a \<^verbatim>\<open>ValueError\<close>
  of its own (the \<^verbatim>\<open>raise\<close> statement) if and only if the configured name is not in the
  recognized list. On that failure the result is the \<^verbatim>\<open>ValueError\<close> with the message
  naming the optimizer, whatever the library's constructors would do, and the state is
  the one the function was entered with: no constructor has run and nothing was changed.
  A \<^verbatim>\<open>ValueError\<close> of any origin leaves \<open>optimizer\<close> exactly when the name is not
  recognized or the library constructor of the branch taken raises one, which then
  propagates unchanged.
\<close>

theorem optimizer_value_error_iff:
  assumes "fetch_opts [''optimizer''] subs = Inr opts"
  shows
    "((\<exists>msg. fst (optimizer fetch_opts recognized torch_optim model subs s) = Inl (ValueError msg))
        \<longleftrightarrow> opt_optimizer opts \<notin> set recognized) \<and>
     (opt_optimizer opts \<notin> set recognized \<longrightarrow>
        optimizer fetch_opts recognized torch_optim model subs s =
          (Inl (ValueError (''Optimizer '' @ opt_optimizer opts @ '' not available.'')), s)) \<and>
     (raises_value_error is_value_error
        (fst (optimizer fetch_opts recognized torch_optim model subs s)) \<longleftrightarrow>
      opt_optimizer opts \<notin> set recognized \<or>
      (\<exists>call e s'. optimizer_branch opts (filter requires_grad (parameters model)) = Some call \<and>
                   torch_optim call s = (Inl e, s') \<and> is_value_error e))"
proof (cases "opt_optimizer opts \<in> set recognized")
  case True
  have own: "fst (optimizer fetch_opts recognized torch_optim model subs s) \<noteq> Inl (ValueError msg)"
    for msg
    using assms True propagate_not_own_error(1) [of "torch_optim c s" msg for c]
    by (simp add: optimizer_def split: option.splits)
  have lib: "raises_value_error is_value_error
        (fst (optimizer fetch_opts recognized torch_optim model subs s)) \<longleftrightarrow>
      (\<exists>call e s'. optimizer_branch opts (filter requires_grad (parameters model)) = Some call \<and>
                   torch_optim call s = (Inl e, s') \<and> is_value_error e)"
  proof (cases "optimizer_branch opts (filter requires_grad (parameters model))")
    case None
    with assms True show ?thesis by (simp add: optimizer_def)
  next
    case (Some call)
    with assms True show ?thesis
      by (simp add: optimizer_def raises_value_error_propagate)
  qed
  from True own lib show ?thesis by simp
next
  case False
  with assms show ?thesis by (simp add: optimizer_def)
qed

theorem optimizer_value_error_iff_witness:
  "(\<exists>msg. fst (optimizer (fetch_const (sample_opts\<lparr>opt_optimizer := ''lbfgs''\<rparr>))
       parse_optimizers recording_optim sample_model SubsetNone 0) = Inl (ValueError msg)) \<and>
   ''lbfgs'' \<notin> set parse_optimizers \<and>
   optimizer (fetch_const (sample_opts\<lparr>opt_optimizer := ''lbfgs''\<rparr>))
       parse_optimizers recording_optim sample_model SubsetNone 0 =
     (Inl (ValueError ''Optimizer lbfgs not available.''), 0)"
proof -
  let ?opts = "sample_opts\<lparr>opt_optimizer := ''lbfgs''\<rparr>"
  have a: "fetch_const ?opts [''optimizer''] SubsetNone = Inr ?opts"
    by (simp add: fetch_const_def)
  have b: "opt_optimizer ?opts = ''lbfgs''"
    by simp
  have c: "''lbfgs'' \<notin> set parse_optimizers"
    by (simp add: parse_optimizers_def)
  note th = optimizer_value_error_iff [of "fetch_const ?opts" SubsetNone ?opts parse_optimizers
      recording_optim sample_model 0 "\<lambda>e. False", OF a, unfolded b]
  from th c have
    "\<exists>msg. fst (optimizer (fetch_const ?opts) parse_optimizers recording_optim sample_model
        SubsetNone 0) = Inl (ValueError msg)"
    by blast
  moreover from th c have
    "optimizer (fetch_const ?opts) parse_optimizers recording_optim sample_model SubsetNone 0 =
       (Inl (ValueError (''Optimizer '' @ ''lbfgs'' @ '' not available.'')), 0)"
    by blast
  ultimately show ?thesis using c by simp
qed

text \<open>
  The claim C2 as it is stated fails for a recognized name whose constructor raises a
  \<^verbatim>\<open>ValueError\<close>: with \<^verbatim>\<open>'adam'\<close> and a model whose parameters are all frozen, the filtered
  parameter list is empty, the constructor refuses it, and that \<^verbatim>\<open>ValueError\<close> leaves
  \<open>optimizer\<close> although the name is in the recognized list.
\<close>

theorem optimizer_library_value_error_counterexample:
  "fst (optimizer (fetch_const_torch sample_opts) parse_optimizers strict_optim frozen_model
          SubsetNone 0) =
     Inl (External (TorchValueError ''optimizer got an empty parameter list'')) \<and>
   raises_value_error is_torch_value_error
     (fst (optimizer (fetch_const_torch sample_opts) parse_optimizers strict_optim frozen_model
             SubsetNone 0)) \<and>
   opt_optimizer sample_opts = ''adam'' \<and>
   opt_optimizer sample_opts \<in> set parse_optimizers"
  by (simp add: optimizer_def optimizer_branch_def fetch_const_torch_def sample_opts_def
      parse_optimizers_def strict_optim_def frozen_model_def propagate_def)

text \<open>
  Claim C8. For every model, whichever of the seven constructors \<open>optimizer\<close> calls, the
  parameter list it passes is the model's parameter list filtered by \<open>requires_grad\<close>,
  in order: a parameter is passed if and only if it is a parameter of the model whose
  \<open>requires_grad\<close> flag is true.
\<close>

theorem optimizer_passes_grad_params:
  assumes "fetch_opts [''optimizer''] subs = Inr opts"
      and "opt_optimizer opts \<in> set recognized"
      and "opt_optimizer opts \<in>
             {''adam'', ''sgd'', ''adadelta'', ''adagrad'', ''sparseadam'', ''adamax'', ''rmsprop''}"
  shows
    "\<exists>call. optimizer_branch opts (filter requires_grad (parameters model)) = Some call \<and>
            call_params call = filter requires_grad (parameters model) \<and>
            (\<forall>p. p \<in> set (call_params call) \<longleftrightarrow> p \<in> set (parameters model) \<and> requires_grad p) \<and>
            optimizer fetch_opts recognized torch_optim model subs s =
              propagate (torch_optim call s)"
proof -
  let ?gp = "filter requires_grad (parameters model)"
  from assms(3) obtain call where br: "optimizer_branch opts ?gp = Some call"
    by (auto simp: optimizer_branch_def)
  then have p: "call_params call = ?gp"
    by (auto simp: optimizer_branch_def split: if_splits)
  have "optimizer fetch_opts recognized torch_optim model subs s =
          propagate (torch_optim call s)"
    using assms(1,2) br by (simp add: optimizer_def)
  with br p show ?thesis by auto
qed

theorem optimizer_passes_grad_params_witness:
  "\<exists>call. call_params call = [\<lparr>requires_grad = True, tensor = 0\<rparr>, \<lparr>requires_grad = True, tensor = 2\<rparr>] \<and>
     optimizer (fetch_const (sample_opts\<lparr>opt_optimizer := ''sgd''\<rparr>)) parse_optimizers
       recording_optim sample_model SubsetNone 0 = (Inr call, 1)"
proof -
  let ?opts = "sample_opts\<lparr>opt_optimizer := ''sgd''\<rparr>"
  have a: "fetch_const ?opts [''optimizer''] SubsetNone = Inr ?opts"
    by (simp add: fetch_const_def)
  have b: "opt_optimizer ?opts \<in> set parse_optimizers"
    by (simp add: parse_optimizers_def)
  have c: "opt_optimizer ?opts \<in>
             {''adam'', ''sgd'', ''adadelta'', ''adagrad'', ''sparseadam'', ''adamax'', ''rmsprop''}"
    by simp
  from optimizer_passes_grad_params [of "fetch_const ?opts" SubsetNone ?opts parse_optimizers
      sample_model recording_optim 0, OF a b c]
  obtain call where
    p: "call_params call = filter requires_grad (parameters sample_model)" and
    r: "optimizer (fetch_const ?opts) parse_optimizers recording_optim sample_model SubsetNone 0 =
          propagate (recording_optim call 0)"
    by blast
  have "call_params call = [\<lparr>requires_grad = True, tensor = 0\<rparr>, \<lparr>requires_grad = True, tensor = 2\<rparr>]"
    using p by (simp add: sample_model_def)
  moreover have "optimizer (fetch_const ?opts) parse_optimizers
       recording_optim sample_model SubsetNone 0 = (Inr call, 1)"
    using r by (simp add: recording_optim_def propagate_def)
  ultimately show ?thesis by blast
qed

section \<open>The checkpoint-backed restorers: what is restored\<close>

lemma py_or_truthy: "truthy (Some v) \<Longrightarrow> py_or (Some v) b = v"
  by simp

lemma py_or_falsy: "\<not> truthy a \<Longrightarrow> py_or a b = b"
  by (cases a) simp_all

lemma epoch_checkpointer_value:
  assumes "fetch_opts [''general''] subs = Inr opts"
  shows "epoch_checkpointer fetch_opts subs w =
           (Inr (\<lparr>chkp_name = ''epoch_'' @ opt_experiment_name opts,
                  chkp_directory = opt_save_path opts, chkp_overwrite = True,
                  chkp_timestamp = False, chkp_add_count = False\<rparr>,
                 py_or (files w (opt_save_path opts, ''epoch_'' @ opt_experiment_name opts))
                   (PInt 1)), w)"
  using assms by (simp add: epoch_checkpointer_def load_def Let_def)

lemma lr_checkpointer_state:
  assumes "fetch_opts [''general'', ''optimizer''] subs = Inr opts"
  shows "lr (group0 (snd (lr_checkpointer fetch_opts fmt_2e subs w))) =
           py_or (files w (opt_save_path opts, ''lr_'' @ opt_experiment_name opts)) (opt_lr opts)"
  using assms
  by (simp add: lr_checkpointer_def load_def Let_def py_print_def split: option.splits)


text \<open>
  Claim C5, as amended. Once the options are fetched, \<open>epoch_checkpointer\<close> returns the
  pair of the epoch checkpointer (named \<^verbatim>\<open>'epoch_'\<close> plus the experiment name, in the
  configured save path, with \<^verbatim>\<open>overwrite=True\<close>, \<^verbatim>\<open>timestamp=False\<close>, \<^verbatim>\<open>add_count=False\<close>) and
  the current epoch, and changes nothing. The current epoch is the persisted value when
  a checkpoint exists and its value is truthy (not zero), and 1 when no checkpoint has
  been persisted.
\<close>

theorem epoch_checkpointer_restores:
  assumes "fetch_opts [''general''] subs = Inr opts"
  shows
    "\<exists>current_epoch.
       epoch_checkpointer fetch_opts subs w =
         (Inr (\<lparr>chkp_name = ''epoch_'' @ opt_experiment_name opts,
                chkp_directory = opt_save_path opts, chkp_overwrite = True,
                chkp_timestamp = False, chkp_add_count = False\<rparr>, current_epoch), w) \<and>
       (\<forall>v. files w (opt_save_path opts, ''epoch_'' @ opt_experiment_name opts) = Some v \<and>
            truthy (Some v) \<longrightarrow> current_epoch = v) \<and>
       (files w (opt_save_path opts, ''epoch_'' @ opt_experiment_name opts) = None \<longrightarrow>
          current_epoch = PInt 1)"
  using epoch_checkpointer_value [of fetch_opts subs opts w] assms by auto

theorem epoch_checkpointer_restores_witness:
  "epoch_checkpointer (fetch_const sample_opts) SubsetNone
       (with_checkpoint ''runs'' ''epoch_exp'' (PInt 7) sample_world) =
     (Inr (\<lparr>chkp_name = ''epoch_exp'', chkp_directory = ''runs'', chkp_overwrite = True,
            chkp_timestamp = False, chkp_add_count = False\<rparr>, PInt 7),
      with_checkpoint ''runs'' ''epoch_exp'' (PInt 7) sample_world) \<and>
   fst (epoch_checkpointer (fetch_const sample_opts) SubsetNone sample_world) =
     Inr (\<lparr>chkp_name = ''epoch_exp'', chkp_directory = ''runs'', chkp_overwrite = True,
            chkp_timestamp = False, chkp_add_count = False\<rparr>, PInt 1)"
proof -
  have a: "fetch_const sample_opts [''general''] SubsetNone = Inr sample_opts"
    by (simp add: fetch_const_def)
  have n: "opt_experiment_name sample_opts = ''exp''" and d: "opt_save_path sample_opts = ''runs''"
    by (simp_all add: sample_opts_def)
  have f7: "files (with_checkpoint ''runs'' ''epoch_exp'' (PInt 7) sample_world)
              (''runs'', ''epoch_exp'') = Some (PInt 7)"
    by (simp add: with_checkpoint_def)
  have f0: "files sample_world (''runs'', ''epoch_exp'') = None"
    by (simp add: sample_world_def)
  from epoch_checkpointer_restores [of "fetch_const sample_opts" SubsetNone sample_opts
      "with_checkpoint ''runs'' ''epoch_exp'' (PInt 7) sample_world", OF a] f7
  have one: "epoch_checkpointer (fetch_const sample_opts) SubsetNone
       (with_checkpoint ''runs'' ''epoch_exp'' (PInt 7) sample_world) =
     (Inr (\<lparr>chkp_name = ''epoch_exp'', chkp_directory = ''runs'', chkp_overwrite = True,
            chkp_timestamp = False, chkp_add_count = False\<rparr>, PInt 7),
      with_checkpoint ''runs'' ''epoch_exp'' (PInt 7) sample_world)"
    by (auto simp: n d)
  from epoch_checkpointer_restores [of "fetch_const sample_opts" SubsetNone sample_opts
      sample_world, OF a] f0
  have two: "fst (epoch_checkpointer (fetch_const sample_opts) SubsetNone sample_world) =
     Inr (\<lparr>chkp_name = ''epoch_exp'', chkp_directory = ''runs'', chkp_overwrite = True,
            chkp_timestamp = False, chkp_add_count = False\<rparr>, PInt 1)"
    by (auto simp: n d)
  from one two show ?thesis by simp
qed

text \<open>
  The claim C5 as it is stated fails when the persisted epoch is 0: a checkpoint
  exists, and the current epoch reported is 1, not the persisted value.
\<close>

theorem epoch_checkpointer_zero_counterexample:
  "files (with_checkpoint ''runs'' ''epoch_exp'' (PInt 0) sample_world) (''runs'', ''epoch_exp'') =
     Some (PInt 0) \<and>
   epoch_checkpointer (fetch_const sample_opts) SubsetNone
       (with_checkpoint ''runs'' ''epoch_exp'' (PInt 0) sample_world) =
     (Inr (\<lparr>chkp_name = ''epoch_exp'', chkp_directory = ''runs'', chkp_overwrite = True,
            chkp_timestamp = False, chkp_add_count = False\<rparr>, PInt 1),
      with_checkpoint ''runs'' ''epoch_exp'' (PInt 0) sample_world)"
  by (simp add: epoch_checkpointer_def fetch_const_def sample_opts_def with_checkpoint_def
      load_def)




text \<open>
  Claim C9. A restored value is taken only when it is truthy. If the persisted epoch is
  falsy, \<open>epoch_checkpointer\<close> reports the current epoch 1; if the persisted learning rate
  is falsy, \<open>lr_checkpointer\<close> sets the configured \<^verbatim>\<open>opts.lr\<close> (whether or not it goes on to
  return). \<^verbatim>\<open>None\<close>, \<^verbatim>\<open>0\<close> and \<^verbatim>\<open>0.0\<close> are falsy.
\<close>

theorem falsy_checkpoint_falls_back:
  "(fetch_opts [''general''] subs = Inr opts \<and>
    \<not> truthy (files w (opt_save_path opts, ''epoch_'' @ opt_experiment_name opts)) \<longrightarrow>
      epoch_checkpointer fetch_opts subs w =
        (Inr (\<lparr>chkp_name = ''epoch_'' @ opt_experiment_name opts,
               chkp_directory = opt_save_path opts, chkp_overwrite = True,
               chkp_timestamp = False, chkp_add_count = False\<rparr>, PInt 1), w)) \<and>
   (fetch_opts [''general'', ''optimizer''] subs = Inr opts \<and>
    \<not> truthy (files w (opt_save_path opts, ''lr_'' @ opt_experiment_name opts)) \<longrightarrow>
      lr (group0 (snd (lr_checkpointer fetch_opts fmt_2e subs w))) = opt_lr opts) \<and>
   \<not> truthy None \<and> \<not> truthy (Some (PInt 0)) \<and> \<not> truthy (Some (PFloat 0))"
  using epoch_checkpointer_value [of fetch_opts subs opts w]
    lr_checkpointer_state [of fetch_opts subs opts fmt_2e w]
  by (auto simp: py_or_falsy)

theorem falsy_checkpoint_falls_back_witness:
  "fst (epoch_checkpointer (fetch_const sample_opts) SubsetNone
       (with_checkpoint ''runs'' ''epoch_exp'' (PInt 0) sample_world)) =
     Inr (\<lparr>chkp_name = ''epoch_exp'', chkp_directory = ''runs'', chkp_overwrite = True,
            chkp_timestamp = False, chkp_add_count = False\<rparr>, PInt 1) \<and>
   lr (group0 (snd (lr_checkpointer (fetch_const sample_opts) sample_fmt SubsetNone
       (with_checkpoint ''runs'' ''lr_exp'' (PFloat 0) sample_world)))) = PFloat (1 / 1000)"
proof -
  have a: "fetch_const sample_opts cats SubsetNone = Inr sample_opts" for cats
    by (simp add: fetch_const_def)
  have n: "opt_experiment_name sample_opts = ''exp''" and d: "opt_save_path sample_opts = ''runs''"
    and l: "opt_lr sample_opts = PFloat (1 / 1000)"
    by (simp_all add: sample_opts_def)
  have fe: "\<not> truthy (files (with_checkpoint ''runs'' ''epoch_exp'' (PInt 0) sample_world)
              (''runs'', ''epoch_exp''))"
    by (simp add: with_checkpoint_def)
  have fl: "\<not> truthy (files (with_checkpoint ''runs'' ''lr_exp'' (PFloat 0) sample_world)
              (''runs'', ''lr_exp''))"
    by (simp add: with_checkpoint_def)
  from falsy_checkpoint_falls_back [of "fetch_const sample_opts" SubsetNone sample_opts
      "with_checkpoint ''runs'' ''epoch_exp'' (PInt 0) sample_world"] a fe
  have one: "fst (epoch_checkpointer (fetch_const sample_opts) SubsetNone
       (with_checkpoint ''runs'' ''epoch_exp'' (PInt 0) sample_world)) =
     Inr (\<lparr>chkp_name = ''epoch_exp'', chkp_directory = ''runs'', chkp_overwrite = True,
            chkp_timestamp = False, chkp_add_count = False\<rparr>, PInt 1)"
    by (simp add: n d)
  from falsy_checkpoint_falls_back [of "fetch_const sample_opts" SubsetNone sample_opts
      "with_checkpoint ''runs'' ''lr_exp'' (PFloat 0) sample_world" sample_fmt] a fl
  have two: "lr (group0 (snd (lr_checkpointer (fetch_const sample_opts) sample_fmt SubsetNone
       (with_checkpoint ''runs'' ''lr_exp'' (PFloat 0) sample_world)))) = PFloat (1 / 1000)"
    by (simp add: n d l)
  from one two show ?thesis by simp
qed

section \<open>The scheduler factory: the closure and what it does\<close>


lemma schedule_step_none:
  "schedule_step fmt_2e subs (Some (\<lambda>metric w'. (None, w'))) metric w = (Inr (), w)"
  by (simp add: schedule_step_def py_ne_def)

lemma schedule_step_raises:
  "fn metric w = (Some e, ws) \<Longrightarrow>
   schedule_step fmt_2e subs (Some fn) metric w = (Inl (External e), ws)"
  by (simp add: schedule_step_def)



lemma schedule_step_changed_unnamed:
  "fn metric w = (None, ws) \<Longrightarrow> py_ne (lr (group0 ws)) (lr (group0 w)) \<Longrightarrow>
   optimizer_label subs = None \<Longrightarrow>
   schedule_step fmt_2e subs (Some fn) metric w = (Inl (KeyError ''optimizer''), ws)"
  by (simp add: schedule_step_def)

lemma schedule_step_frame:
  "snd (schedule_step fmt_2e subs None metric w) = w"
  "same_but_stdout (snd (fn metric w)) (snd (schedule_step fmt_2e subs (Some fn) metric w))"
  by (auto simp: schedule_step_def same_but_stdout_def py_print_def Let_def
      split: prod.splits option.splits)

lemma scheduler_closure:
  assumes "scheduler fetch_opts new_scheduler step fmt_2e subs w = (Inr closure, w1)"
  shows "closure = schedule_step fmt_2e subs None \<or>
         closure = schedule_step fmt_2e subs (Some (\<lambda>metric w'. (None, w'))) \<or>
         (\<exists>sch. closure = schedule_step fmt_2e subs (Some (\<lambda>metric. step sch (Some metric)))) \<or>
         (\<exists>sch. closure = schedule_step fmt_2e subs (Some (\<lambda>metric. step sch None)))"
  using assms
  by (auto simp: scheduler_def split: sum.splits if_splits prod.splits)

lemma sample_scheduler_step:
  "scheduler (fetch_const sample_opts) recording_scheduler halving_step sample_fmt subs
       sample_world =
     (Inr (schedule_step sample_fmt subs
             (Some (\<lambda>metric :: nat. halving_step (StepLR (PInt 100) (PFloat (1 / 2))) None))),
      sample_world)"
  by (simp add: scheduler_def fetch_const_def sample_opts_def recording_scheduler_def)


text \<open>
  Claim C4. Once the options are fetched, \<open>scheduler\<close> selects the decay policy by
  \<^verbatim>\<open>opts.lr_schedule\<close>.
  \<^item> \<^verbatim>\<open>'plateau'\<close>: it constructs \<^verbatim>\<open>ReduceLROnPlateau\<close> on the optimizer (\<^verbatim>\<open>mode='min'\<close>,
    \<^verbatim>\<open>factor=opts.lr_ratio\<close>, \<^verbatim>\<open>threshold=0.0001\<close>, \<^verbatim>\<open>patience=opts.lr_patience\<close>, \<^verbatim>\<open>verbose=True\<close>,
    \<^verbatim>\<open>threshold_mode='rel'\<close>, \<^verbatim>\<open>cooldown=opts.lr_cooldown\<close>, \<^verbatim>\<open>min_lr=opts.lr_min\<close>, \<^verbatim>\<open>eps=1e-08\<close>)
    and returns the closure whose inner action is that schedule's \<^verbatim>\<open>step\<close> called with the
    metric given to the closure.
  \<^item> \<^verbatim>\<open>'step'\<close>: it constructs \<^verbatim>\<open>StepLR\<close> (\<^verbatim>\<open>step_size=opts.lr_step_size\<close>, \<^verbatim>\<open>gamma=opts.lr_ratio\<close>)
    and returns the closure whose inner action is that schedule's \<^verbatim>\<open>step\<close> called with no
    argument: the metric is ignored.
  \<^item> \<^verbatim>\<open>'none'\<close>: it constructs nothing and returns the closure whose inner action does
    nothing; calling it returns normally and leaves the state as it was.

  In each case the value returned is the one-argument closure \<open>schedule_step\<close> around
  that inner action: called with a metric, it runs the inner action on the metric and
  the state, propagates the action's exception, and otherwise leaves the state the
  action left (but for a printed line) and does not fail on its closure variable.
\<close>

theorem scheduler_selects_policy:
  assumes "fetch_opts [''scheduler''] subs = Inr opts"
  shows
    "(opt_lr_schedule opts = ''plateau'' \<and>
      new_scheduler (ReduceLROnPlateau ''min'' (opt_lr_ratio opts) (PFloat (1 / 10000))
                       (opt_lr_patience opts) True ''rel'' (opt_lr_cooldown opts)
                       (opt_lr_min opts) (PFloat (1 / 100000000))) w = (Inr sch, w1) \<longrightarrow>
        scheduler fetch_opts new_scheduler step fmt_2e subs w =
          (Inr (schedule_step fmt_2e subs (Some (\<lambda>metric. step sch (Some metric)))), w1)) \<and>
     (opt_lr_schedule opts = ''step'' \<and>
      new_scheduler (StepLR (opt_lr_step_size opts) (opt_lr_ratio opts)) w = (Inr sch, w1) \<longrightarrow>
        scheduler fetch_opts new_scheduler step fmt_2e subs w =
          (Inr (schedule_step fmt_2e subs (Some (\<lambda>metric. step sch None))), w1)) \<and>
     (opt_lr_schedule opts = ''none'' \<longrightarrow>
        scheduler fetch_opts new_scheduler step fmt_2e subs w =
          (Inr (schedule_step fmt_2e subs (Some (\<lambda>metric w'. (None, w')))), w) \<and>
        schedule_step fmt_2e subs (Some (\<lambda>metric w'. (None, w'))) metric w2 = (Inr (), w2)) \<and>
     (fn metric w2 = (Some e, ws) \<longrightarrow>
        schedule_step fmt_2e subs (Some fn) metric w2 = (Inl (External e), ws)) \<and>
     (fn metric w2 = (None, ws) \<longrightarrow>
        same_but_stdout ws (snd (schedule_step fmt_2e subs (Some fn) metric w2)) \<and>
        (\<forall>n. fst (schedule_step fmt_2e subs (Some fn) metric w2) \<noteq> Inl (NameError n)))"
proof (intro conjI impI)
  show "scheduler fetch_opts new_scheduler step fmt_2e subs w =
          (Inr (schedule_step fmt_2e subs (Some (\<lambda>metric. step sch (Some metric)))), w1)"
    if "opt_lr_schedule opts = ''plateau'' \<and>
      new_scheduler (ReduceLROnPlateau ''min'' (opt_lr_ratio opts) (PFloat (1 / 10000))
                       (opt_lr_patience opts) True ''rel'' (opt_lr_cooldown opts)
                       (opt_lr_min opts) (PFloat (1 / 100000000))) w = (Inr sch, w1)"
    using assms that by (simp add: scheduler_def)
  show "scheduler fetch_opts new_scheduler step fmt_2e subs w =
          (Inr (schedule_step fmt_2e subs (Some (\<lambda>metric. step sch None))), w1)"
    if "opt_lr_schedule opts = ''step'' \<and>
      new_scheduler (StepLR (opt_lr_step_size opts) (opt_lr_ratio opts)) w = (Inr sch, w1)"
    using assms that by (simp add: scheduler_def)
  show "scheduler fetch_opts new_scheduler step fmt_2e subs w =
          (Inr (schedule_step fmt_2e subs (Some (\<lambda>metric w'. (None, w')))), w)"
    if "opt_lr_schedule opts = ''none''"
    using assms that by (simp add: scheduler_def)
  show "schedule_step fmt_2e subs (Some (\<lambda>metric w'. (None, w'))) metric w2 = (Inr (), w2)"
    by (simp add: schedule_step_def py_ne_def)
  show "schedule_step fmt_2e subs (Some fn) metric w2 = (Inl (External e), ws)"
    if "fn metric w2 = (Some e, ws)"
    using that by (rule schedule_step_raises)
  show "same_but_stdout ws (snd (schedule_step fmt_2e subs (Some fn) metric w2))"
    if "fn metric w2 = (None, ws)"
    using schedule_step_frame(2) [of fn metric w2 fmt_2e subs] that by simp
  show "\<forall>n. fst (schedule_step fmt_2e subs (Some fn) metric w2) \<noteq> Inl (NameError n)"
    if "fn metric w2 = (None, ws)"
    using that by (simp add: schedule_step_def Let_def split: option.splits)
qed

theorem scheduler_selects_policy_witness:
  "scheduler (fetch_const sample_opts) recording_scheduler halving_step sample_fmt SubsetNone
       sample_world =
     (Inr (schedule_step sample_fmt SubsetNone
             (Some (\<lambda>metric :: nat. halving_step (StepLR (PInt 100) (PFloat (1 / 2))) None))),
      sample_world) \<and>
   scheduler (fetch_const (sample_opts\<lparr>opt_lr_schedule := ''plateau''\<rparr>)) recording_scheduler
       halving_step sample_fmt SubsetNone sample_world =
     (Inr (schedule_step sample_fmt SubsetNone
             (Some (\<lambda>metric :: nat. halving_step
                (ReduceLROnPlateau ''min'' (PFloat (1 / 2)) (PFloat (1 / 10000)) (PInt 10) True
                   ''rel'' (PInt 0) (PFloat 0) (PFloat (1 / 100000000))) (Some metric)))),
      sample_world) \<and>
   scheduler (fetch_const (sample_opts\<lparr>opt_lr_schedule := ''none''\<rparr>)) recording_scheduler
       halving_step sample_fmt SubsetNone sample_world =
     (Inr (schedule_step sample_fmt SubsetNone (Some (\<lambda>(metric :: nat) w'. (None, w')))),
      sample_world) \<and>
   schedule_step sample_fmt SubsetNone (Some (\<lambda>(metric :: nat) w'. (None :: unit option, w')))
       3 sample_world = (Inr (), sample_world)"
proof -
  have a: "fetch_const given [''scheduler''] SubsetNone = Inr given" for given
    by (simp add: fetch_const_def)
  have r: "recording_scheduler call sample_world = (Inr call, sample_world)" for call
    by (simp add: recording_scheduler_def)
  have s: "opt_lr_schedule sample_opts = ''step''"
      "opt_lr_step_size sample_opts = PInt 100" "opt_lr_ratio sample_opts = PFloat (1 / 2)"
      "opt_lr_patience sample_opts = PInt 10" "opt_lr_cooldown sample_opts = PInt 0"
      "opt_lr_min sample_opts = PFloat 0"
    by (simp_all add: sample_opts_def)
  note one = scheduler_selects_policy [of "fetch_const sample_opts" SubsetNone sample_opts
      recording_scheduler sample_world "StepLR (PInt 100) (PFloat (1 / 2))" sample_world
      halving_step sample_fmt, OF a, THEN conjunct2, THEN conjunct1]
  note two = scheduler_selects_policy [of "fetch_const (sample_opts\<lparr>opt_lr_schedule := ''plateau''\<rparr>)"
      SubsetNone "sample_opts\<lparr>opt_lr_schedule := ''plateau''\<rparr>"
      recording_scheduler sample_world
      "ReduceLROnPlateau ''min'' (PFloat (1 / 2)) (PFloat (1 / 10000)) (PInt 10) True
                   ''rel'' (PInt 0) (PFloat 0) (PFloat (1 / 100000000))" sample_world
      halving_step sample_fmt, OF a, THEN conjunct1]
  note three = scheduler_selects_policy [of "fetch_const (sample_opts\<lparr>opt_lr_schedule := ''none''\<rparr>)"
      SubsetNone "sample_opts\<lparr>opt_lr_schedule := ''none''\<rparr>"
      recording_scheduler sample_world _ _ halving_step sample_fmt 3 sample_world, OF a,
      THEN conjunct2, THEN conjunct2, THEN conjunct1]
  from one have "scheduler (fetch_const sample_opts) recording_scheduler halving_step sample_fmt
       SubsetNone sample_world =
     (Inr (schedule_step sample_fmt SubsetNone
             (Some (\<lambda>metric :: nat. halving_step (StepLR (PInt 100) (PFloat (1 / 2))) None))),
      sample_world)"
    by (simp add: s r)
  moreover from two have "scheduler (fetch_const (sample_opts\<lparr>opt_lr_schedule := ''plateau''\<rparr>))
       recording_scheduler halving_step sample_fmt SubsetNone sample_world =
     (Inr (schedule_step sample_fmt SubsetNone
             (Some (\<lambda>metric :: nat. halving_step
                (ReduceLROnPlateau ''min'' (PFloat (1 / 2)) (PFloat (1 / 10000)) (PInt 10) True
                   ''rel'' (PInt 0) (PFloat 0) (PFloat (1 / 100000000))) (Some metric)))),
      sample_world)"
    by (simp add: s r)
  moreover from three have "scheduler (fetch_const (sample_opts\<lparr>opt_lr_schedule := ''none''\<rparr>))
       recording_scheduler halving_step sample_fmt SubsetNone sample_world =
     (Inr (schedule_step sample_fmt SubsetNone (Some (\<lambda>(metric :: nat) w'. (None, w')))),
      sample_world) \<and>
     schedule_step sample_fmt SubsetNone (Some (\<lambda>(metric :: nat) w'. (None :: unit option, w')))
       3 sample_world = (Inr (), sample_world)"
    by simp
  ultimately show ?thesis by simp
qed




text \<open>
  Claim C3 fails on the code: with an \<^verbatim>\<open>lr_schedule\<close> other than \<^verbatim>\<open>'plateau'\<close>, \<^verbatim>\<open>'step'\<close> and
  \<^verbatim>\<open>'none'\<close>, no branch of \<open>scheduler\<close> defines \<^verbatim>\<open>schedule_fn\<close>; the closure is returned all
  the same, and calling it raises \<^verbatim>\<open>NameError\<close> inside this module. Here the schedule is
  \<^verbatim>\<open>'cosine'\<close>.
\<close>

theorem scheduler_unknown_schedule_name_error:
  "scheduler_then_step (fetch_const (sample_opts\<lparr>opt_lr_schedule := ''cosine''\<rparr>))
       recording_scheduler halving_step sample_fmt SubsetNone 0 sample_world =
     (Inl (NameError ''schedule_fn''), sample_world)"
  by (simp add: scheduler_then_step_def scheduler_def fetch_const_def sample_opts_def
      schedule_step_def)

section \<open>What each function writes\<close>

lemma snd_propagate: "snd (propagate r) = snd r"
  by (auto simp: propagate_def split: prod.splits sum.splits)

lemma optimizer_frame:
  "snd (optimizer fetch_opts recognized torch_optim model subs s) = s \<or>
   (\<exists>call. snd (optimizer fetch_opts recognized torch_optim model subs s) =
            snd (torch_optim call s))"
proof (cases "fetch_opts [''optimizer''] subs")
  case (Inl e)
  then show ?thesis by (simp add: optimizer_def)
next
  case (Inr opts)
  show ?thesis
  proof (cases "optimizer_branch opts (filter requires_grad (parameters model))")
    case None
    with Inr show ?thesis by (simp add: optimizer_def)
  next
    case (Some call)
    with Inr have "snd (optimizer fetch_opts recognized torch_optim model subs s) = s \<or>
      snd (optimizer fetch_opts recognized torch_optim model subs s) = snd (torch_optim call s)"
      by (simp add: optimizer_def snd_propagate)
    then show ?thesis by blast
  qed
qed

lemma scheduler_frame:
  "snd (scheduler fetch_opts new_scheduler step fmt_2e subs w) = w \<or>
   (\<exists>call. snd (scheduler fetch_opts new_scheduler step fmt_2e subs w) =
            snd (new_scheduler call w))"
proof (cases "fetch_opts [''scheduler''] subs")
  case (Inl e)
  then show ?thesis by (simp add: scheduler_def)
next
  case (Inr opts)
  let ?plateau = "ReduceLROnPlateau ''min'' (opt_lr_ratio opts) (PFloat (1 / 10000))
                    (opt_lr_patience opts) True ''rel'' (opt_lr_cooldown opts)
                    (opt_lr_min opts) (PFloat (1 / 100000000))"
  let ?steplr = "StepLR (opt_lr_step_size opts) (opt_lr_ratio opts)"
  consider "opt_lr_schedule opts = ''plateau''" | "opt_lr_schedule opts = ''step''"
    | "opt_lr_schedule opts \<noteq> ''plateau''" "opt_lr_schedule opts \<noteq> ''step''"
    by blast
  then show ?thesis
  proof cases
    case 1
    with Inr have "snd (scheduler fetch_opts new_scheduler step fmt_2e subs w) =
                     snd (new_scheduler ?plateau w)"
      by (auto simp: scheduler_def split: prod.splits sum.splits)
    then show ?thesis by blast
  next
    case 2
    with Inr have "snd (scheduler fetch_opts new_scheduler step fmt_2e subs w) =
                     snd (new_scheduler ?steplr w)"
      by (auto simp: scheduler_def split: prod.splits sum.splits)
    then show ?thesis by blast
  next
    case 3
    with Inr show ?thesis by (simp add: scheduler_def)
  qed
qed

lemma epoch_checkpointer_frame:
  "snd (epoch_checkpointer fetch_opts subs w) = w"
  by (simp add: epoch_checkpointer_def Let_def split: sum.splits)

lemma lr_checkpointer_frame:
  "\<exists>v out. snd (lr_checkpointer fetch_opts fmt_2e subs w) =
            w\<lparr>group0 := (group0 w)\<lparr>lr := v\<rparr>, stdout := out\<rparr>"
proof (cases "fetch_opts [''general'', ''optimizer''] subs")
  case (Inl e)
  then have "snd (lr_checkpointer fetch_opts fmt_2e subs w) =
               w\<lparr>group0 := (group0 w)\<lparr>lr := lr (group0 w)\<rparr>, stdout := stdout w\<rparr>"
    by (simp add: lr_checkpointer_def)
  then show ?thesis by blast
next
  case (Inr opts)
  let ?v = "py_or (files w (opt_save_path opts, ''lr_'' @ opt_experiment_name opts)) (opt_lr opts)"
  show ?thesis
  proof (cases "optimizer_label subs")
    case None
    with Inr have "snd (lr_checkpointer fetch_opts fmt_2e subs w) =
               w\<lparr>group0 := (group0 w)\<lparr>lr := ?v\<rparr>, stdout := stdout w\<rparr>"
      by (simp add: lr_checkpointer_def load_def Let_def)
    then show ?thesis by blast
  next
    case (Some name)
    with Inr have "snd (lr_checkpointer fetch_opts fmt_2e subs w) =
               w\<lparr>group0 := (group0 w)\<lparr>lr := ?v\<rparr>,
                 stdout := stdout w @ [''Learning rate'' @ name @ '' initialized to '' @
                             fmt_2e ?v @ ''.'']\<rparr>"
      by (simp add: lr_checkpointer_def load_def Let_def py_print_def)
    then show ?thesis by blast
  qed
qed

lemma closure_frame:
  assumes "scheduler fetch_opts new_scheduler step fmt_2e subs w = (Inr closure, w1)"
  shows "same_but_stdout w2 (snd (closure metric w2)) \<or>
         (\<exists>sch arg. same_but_stdout (snd (step sch arg w2)) (snd (closure metric w2)))"
proof -
  from scheduler_closure [OF assms]
  consider "closure = schedule_step fmt_2e subs None"
    | "closure = schedule_step fmt_2e subs (Some (\<lambda>metric w'. (None, w')))"
    | sch where "closure = schedule_step fmt_2e subs (Some (\<lambda>metric. step sch (Some metric)))"
    | sch where "closure = schedule_step fmt_2e subs (Some (\<lambda>metric. step sch None))"
    by blast
  then show ?thesis
  proof cases
    case 1
    then show ?thesis by (simp add: schedule_step_frame(1) same_but_stdout_def)
  next
    case 2
    then show ?thesis by (simp add: schedule_step_none same_but_stdout_def)
  next
    case 3
    then show ?thesis
      using schedule_step_frame(2) [of "\<lambda>metric. step sch (Some metric)" metric w2 fmt_2e subs]
      by auto
  next
    case 4
    then show ?thesis
      using schedule_step_frame(2) [of "\<lambda>metric. step sch None" metric w2 fmt_2e subs]
      by auto
  qed
qed

text \<open>
  Claim C7. No function of this module writes anything but the learning rate of the
  caller's optimizer (and the console).
  \<^item> \<open>optimizer\<close> leaves the state as it was or as the one library constructor it called
    left it; the model is an argument it only reads.
  \<^item> \<open>lr_checkpointer\<close> leaves the state as it was but for the \<^verbatim>\<open>'lr'\<close> entry of the first
    parameter group and the console: the other entries of that group, the other groups,
    the library's state and the checkpoint files are unchanged.
  \<^item> A call of the closure returned by \<open>scheduler\<close> leaves, but for the console, the
    state it was called in or the state that one call of the library schedule's \<^verbatim>\<open>step\<close>
    on that state left.
  \<^item> \<open>scheduler\<close> itself leaves the state as it was or as the one schedule constructor it
    called left it, and \<open>epoch_checkpointer\<close> leaves the state as it was.
\<close>

theorem only_optimizer_state_written:
  "(snd (optimizer fetch_opts recognized torch_optim model subs s) = s \<or>
    (\<exists>call. snd (optimizer fetch_opts recognized torch_optim model subs s) =
             snd (torch_optim call s))) \<and>
   (\<exists>v out. snd (lr_checkpointer fetch_opts fmt_2e subs w) =
             w\<lparr>group0 := (group0 w)\<lparr>lr := v\<rparr>, stdout := out\<rparr>) \<and>
   other_entries (group0 (snd (lr_checkpointer fetch_opts fmt_2e subs w))) =
     other_entries (group0 w) \<and>
   groups_rest (snd (lr_checkpointer fetch_opts fmt_2e subs w)) = groups_rest w \<and>
   lib_state (snd (lr_checkpointer fetch_opts fmt_2e subs w)) = lib_state w \<and>
   files (snd (lr_checkpointer fetch_opts fmt_2e subs w)) = files w \<and>
   (scheduler fetch_opts new_scheduler step fmt_2e subs w = (Inr closure, w1) \<longrightarrow>
      same_but_stdout w2 (snd (closure metric w2)) \<or>
      (\<exists>sch arg. same_but_stdout (snd (step sch arg w2)) (snd (closure metric w2)))) \<and>
   (snd (scheduler fetch_opts new_scheduler step fmt_2e subs w) = w \<or>
    (\<exists>call. snd (scheduler fetch_opts new_scheduler step fmt_2e subs w) =
             snd (new_scheduler call w))) \<and>
   snd (epoch_checkpointer fetch_opts subs w) = w"
proof -
  from lr_checkpointer_frame [of fetch_opts fmt_2e subs w]
  obtain v out where
    eq: "snd (lr_checkpointer fetch_opts fmt_2e subs w) =
           w\<lparr>group0 := (group0 w)\<lparr>lr := v\<rparr>, stdout := out\<rparr>"
    by blast
  have "other_entries (group0 (snd (lr_checkpointer fetch_opts fmt_2e subs w))) =
     other_entries (group0 w) \<and>
   groups_rest (snd (lr_checkpointer fetch_opts fmt_2e subs w)) = groups_rest w \<and>
   lib_state (snd (lr_checkpointer fetch_opts fmt_2e subs w)) = lib_state w \<and>
   files (snd (lr_checkpointer fetch_opts fmt_2e subs w)) = files w"
    unfolding eq by simp
  then show ?thesis
    using optimizer_frame [of fetch_opts recognized torch_optim model subs s]
      lr_checkpointer_frame [of fetch_opts fmt_2e subs w]
      closure_frame [of fetch_opts new_scheduler step fmt_2e subs w closure w1 w2 metric]
      scheduler_frame [of fetch_opts new_scheduler step fmt_2e subs w]
      epoch_checkpointer_frame [of fetch_opts subs w]
    by blast
qed

theorem only_optimizer_state_written_witness:
  "(same_but_stdout sample_world
      (snd (schedule_step sample_fmt SubsetNone
              (Some (\<lambda>metric :: nat. halving_step (StepLR (PInt 100) (PFloat (1 / 2)))
                        None)) 0 sample_world)) \<or>
    (\<exists>sch arg. same_but_stdout (snd (halving_step sch arg sample_world))
      (snd (schedule_step sample_fmt SubsetNone
              (Some (\<lambda>metric :: nat. halving_step (StepLR (PInt 100) (PFloat (1 / 2)))
                        None)) 0 sample_world)))) \<and>
   groups_rest (snd (lr_checkpointer (fetch_const sample_opts) sample_fmt SubsetNone
      sample_world)) = [] \<and>
   lib_state (snd (lr_checkpointer (fetch_const sample_opts) sample_fmt SubsetNone
      sample_world)) = 0 \<and>
   snd (epoch_checkpointer (fetch_const sample_opts) SubsetNone sample_world) = sample_world"
proof -
  note th = only_optimizer_state_written [of "fetch_const sample_opts" parse_optimizers
      recording_optim sample_model SubsetNone 0 sample_fmt sample_world recording_scheduler
      halving_step
      "schedule_step sample_fmt SubsetNone
         (Some (\<lambda>metric :: nat. halving_step (StepLR (PInt 100) (PFloat (1 / 2)))
                        None))"
      sample_world sample_world 0]
  have g: "groups_rest sample_world = []" and l: "lib_state sample_world = 0"
    by (simp_all add: sample_world_def)
  from th sample_scheduler_step [of SubsetNone] show ?thesis
    by (simp add: g l)
qed

section \<open>Where the module raises nothing of its own\<close>

lemma own_error_simps [simp]:
  "own_error (Inr v) = False" "own_error (Inl (External e)) = False"
  "own_error (Inl (ValueError m)) = True" "own_error (Inl (NameError m)) = True"
  "own_error (Inl (KeyError m)) = True" "own_error (Inl (UnboundLocalError m)) = True"
  by (simp_all add: own_error_def)

lemma own_error_propagate: "\<not> own_error (fst (propagate r))"
  by (auto simp: propagate_def split: prod.splits sum.splits)

lemma optimizer_own_error:
  assumes "set recognized \<subseteq> set parse_optimizers"
      and "own_error (fst (optimizer fetch_opts recognized torch_optim model subs s))"
  shows "\<exists>msg. fst (optimizer fetch_opts recognized torch_optim model subs s) =
           Inl (ValueError msg)"
proof (cases "fetch_opts [''optimizer''] subs")
  case (Inl e)
  with assms(2) show ?thesis by (simp add: optimizer_def)
next
  case (Inr opts)
  show ?thesis
  proof (cases "opt_optimizer opts \<in> set recognized")
    case False
    with Inr show ?thesis by (simp add: optimizer_def)
  next
    case True
    with assms(1) have "opt_optimizer opts \<in> set parse_optimizers" by blast
    then obtain call where
      "optimizer_branch opts (filter requires_grad (parameters model)) = Some call"
      by (auto simp: optimizer_branch_def parse_optimizers_def)
    with Inr True have "optimizer fetch_opts recognized torch_optim model subs s =
                          propagate (torch_optim call s)"
      by (simp add: optimizer_def)
    with assms(2) own_error_propagate [of "torch_optim call s"] show ?thesis by simp
  qed
qed

lemma scheduler_own_error:
  "\<not> own_error (fst (scheduler fetch_opts new_scheduler step fmt_2e subs w))"
  by (auto simp: scheduler_def split: sum.splits prod.splits)

lemma epoch_checkpointer_own_error:
  "\<not> own_error (fst (epoch_checkpointer fetch_opts subs w))"
  by (auto simp: epoch_checkpointer_def Let_def split: sum.splits)

lemma lr_checkpointer_own_error:
  "optimizer_label subs = Some name \<Longrightarrow>
   \<not> own_error (fst (lr_checkpointer fetch_opts fmt_2e subs w))"
  by (auto simp: lr_checkpointer_def Let_def split: sum.splits)

lemma schedule_step_own_error:
  "optimizer_label subs = Some name \<Longrightarrow>
   \<not> own_error (fst (schedule_step fmt_2e subs (Some fn) metric w))"
  by (auto simp: schedule_step_def Let_def split: prod.splits option.splits)

lemma closure_own_error:
  assumes "fetch_opts [''scheduler''] subs = Inr opts"
      and "opt_lr_schedule opts \<in> {''plateau'', ''step'', ''none''}"
      and "scheduler fetch_opts new_scheduler step fmt_2e subs w = (Inr closure, w1)"
      and "optimizer_label subs = Some name"
  shows "\<not> own_error (fst (closure metric w2))"
proof -
  from assms(1,2,3) obtain fn where "closure = schedule_step fmt_2e subs (Some fn)"
    by (auto simp: scheduler_def split: prod.splits sum.splits if_splits)
  with assms(4) show ?thesis by (simp add: schedule_step_own_error)
qed

text \<open>
  An additional property: where the module raises nothing of its own. When every recognized
  optimizer name is one of the seven that have a branch, the only error of its own that
  \<open>optimizer\<close> raises is the \<^verbatim>\<open>ValueError\<close>. \<open>scheduler\<close> and \<open>epoch_checkpointer\<close> raise none
  of their own. \<open>lr_checkpointer\<close> raises none of its own when the subset argument names
  the optimizer. A closure returned by \<open>scheduler\<close> raises none of its own when
  \<^verbatim>\<open>lr_schedule\<close> is \<^verbatim>\<open>'plateau'\<close>, \<^verbatim>\<open>'step'\<close> or \<^verbatim>\<open>'none'\<close> and the subset argument names the
  optimizer.
\<close>

theorem own_errors_when_selectors_known:
  "(set recognized \<subseteq> set parse_optimizers \<and>
    own_error (fst (optimizer fetch_opts recognized torch_optim model subs s)) \<longrightarrow>
      (\<exists>msg. fst (optimizer fetch_opts recognized torch_optim model subs s) =
         Inl (ValueError msg))) \<and>
   \<not> own_error (fst (scheduler fetch_opts new_scheduler step fmt_2e subs w)) \<and>
   \<not> own_error (fst (epoch_checkpointer fetch_opts subs w)) \<and>
   (optimizer_label subs = Some name \<longrightarrow>
      \<not> own_error (fst (lr_checkpointer fetch_opts fmt_2e subs w))) \<and>
   (fetch_opts [''scheduler''] subs = Inr opts \<and>
    opt_lr_schedule opts \<in> {''plateau'', ''step'', ''none''} \<and>
    scheduler fetch_opts new_scheduler step fmt_2e subs w = (Inr closure, w1) \<and>
    optimizer_label subs = Some name \<longrightarrow>
      \<not> own_error (fst (closure metric w2)))"
  using optimizer_own_error [of recognized fetch_opts torch_optim model subs s]
    scheduler_own_error [of fetch_opts new_scheduler step fmt_2e subs w]
    epoch_checkpointer_own_error [of fetch_opts subs w]
    lr_checkpointer_own_error [of subs name fetch_opts fmt_2e w]
    closure_own_error [of fetch_opts subs opts new_scheduler step fmt_2e w closure w1 name
      metric w2]
  by blast

theorem own_errors_when_selectors_known_witness:
  "\<not> own_error (fst (schedule_step sample_fmt SubsetNone
       (Some (\<lambda>metric :: nat. halving_step (StepLR (PInt 100) (PFloat (1 / 2))) None))
       0 sample_world)) \<and>
   \<not> own_error (fst (lr_checkpointer (fetch_const sample_opts) sample_fmt SubsetNone
       sample_world))"
proof -
  note th = own_errors_when_selectors_known [of parse_optimizers "fetch_const sample_opts"
      recording_optim sample_model SubsetNone 0 recording_scheduler halving_step sample_fmt
      sample_world "[]" sample_opts
      "schedule_step sample_fmt SubsetNone
         (Some (\<lambda>metric :: nat. halving_step (StepLR (PInt 100) (PFloat (1 / 2))) None))"
      sample_world 0 sample_world]
  have lab: "optimizer_label SubsetNone = Some []"
    by (simp add: optimizer_label_def)
  have fetch: "fetch_const sample_opts [''scheduler''] SubsetNone = Inr sample_opts"
    by (simp add: fetch_const_def)
  have sch: "opt_lr_schedule sample_opts \<in> {''plateau'', ''step'', ''none''}"
    by (simp add: sample_opts_def)
  from th lab fetch sch sample_scheduler_step [of SubsetNone] show ?thesis
    by blast
qed

end
